theory Spec2Isabelle
  imports Main
begin

section \<open>The SkSL memory pool front-end (SkSLPool.cpp)\<close>

text \<open>
  \<^verbatim>\<open>SkSL::Pool\<close> binds one \<^verbatim>\<open>MemoryPool\<close> (the arena) to the calling thread and
  routes \<^verbatim>\<open>AllocMemory\<close>/\<^verbatim>\<open>FreeMemory\<close> through the arena bound to that thread, or
  through the system allocator when none is bound.

  The embedding passes the program state explicitly. The thread-local variable
  \<^verbatim>\<open>sMemPool\<close> becomes one slot per thread, the \<^verbatim>\<open>MemoryPool\<close> objects live in a
  store indexed by their address, and every effect the source performs (a read or a
  write of the slot, a call of a \<^verbatim>\<open>MemoryPool\<close> method, of \<^verbatim>\<open>::operator new\<close> or
  \<^verbatim>\<open>::operator delete\<close>, a debug diagnostic) is appended to a trace in program order.
  Every operation takes the calling thread as an argument. The accessors of the slot
  follow the \<^verbatim>\<open>thread_local\<close> branch of the source (lines 22-30); the Starboard
  branch implements the same two accessors over Starboard's thread-local keys.
  \<^verbatim>\<open>VLOG\<close> expands to nothing (line 12) and has no counterpart here.
\<close>

subsection \<open>Data\<close>

type_synonym tid = nat
type_synonym addr = nat
type_synonym ptr = nat

text \<open>
  A \<^verbatim>\<open>MemoryPool*\<close> is \<open>addr option\<close>, with \<open>None\<close> for \<^verbatim>\<open>nullptr\<close>. A \<^verbatim>\<open>Pool\<close> has
  the one member \<^verbatim>\<open>fMemPool\<close>; the model keeps what \<^verbatim>\<open>fMemPool.get()\<close> returns.
\<close>

record pool =
  fMemPool :: "addr option"

datatype event =
    Slot_get tid
  | Slot_set tid "addr option"
  | Arena_Make addr nat nat
  | Arena_allocate addr nat
  | Arena_release addr ptr
  | Arena_resetScratchSpace addr
  | Arena_reportLeaks addr
  | Arena_isEmpty addr
  | Operator_new nat
  | Operator_delete ptr
  | Debug_fail string

text \<open>
  The two ways a call can end without returning: a failed \<^verbatim>\<open>SkASSERT\<close>, and a method
  call through a pointer that is null or does not point to a \<^verbatim>\<open>MemoryPool\<close>
  (undefined behaviour in C++, kept apart from every defined outcome).
\<close>

datatype failure = Assertion_failed | Invalid_dereference

text \<open>
  \<^verbatim>\<open>MemoryPool\<close> and the system allocator are collaborators whose code is not part of
  this file. They are parameters of the model: \<open>'m\<close> is the state of one arena, \<open>'h\<close>
  the state of the system heap.
\<close>

record ('m, 'h) collaborators =
  Make :: "nat \<Rightarrow> nat \<Rightarrow> 'm"
  allocate :: "'m \<Rightarrow> nat \<Rightarrow> ptr \<times> 'm"
  release :: "'m \<Rightarrow> ptr \<Rightarrow> 'm"
  resetScratchSpace :: "'m \<Rightarrow> 'm"
  reportLeaks :: "'m \<Rightarrow> 'm"
  isEmpty :: "'m \<Rightarrow> bool"
  operator_new :: "'h \<Rightarrow> nat \<Rightarrow> ptr \<times> 'h"
  operator_delete :: "'h \<Rightarrow> ptr \<Rightarrow> 'h"

record ('m, 'h) world =
  sMemPool :: "tid \<Rightarrow> addr option"
  arenas :: "addr \<Rightarrow> 'm option"
  sysheap :: "'h"
  trace :: "event list"

type_synonym ('v, 'm, 'h) result = "failure \<times> ('m, 'h) world + 'v \<times> ('m, 'h) world"

text \<open>Line 22: every thread starts with \<^verbatim>\<open>sMemPool = nullptr\<close>.\<close>

definition initial :: "'h \<Rightarrow> ('m, 'h) world" where
  "initial hp = \<lparr>sMemPool = (\<lambda>t. None), arenas = (\<lambda>a. None), sysheap = hp, trace = []\<rparr>"

definition emit :: "event \<Rightarrow> ('m, 'h) world \<Rightarrow> ('m, 'h) world" where
  "emit e s = s\<lparr>trace := trace s @ [e]\<rparr>"

definition seq :: "('a, 'm, 'h) result \<Rightarrow> ('a \<Rightarrow> ('m, 'h) world \<Rightarrow> ('b, 'm, 'h) result)
    \<Rightarrow> ('b, 'm, 'h) result" where
  "seq r f = (case r of Inl e \<Rightarrow> Inl e | Inr (v, s) \<Rightarrow> f v s)"

definition final :: "('v, 'm, 'h) result \<Rightarrow> ('m, 'h) world" where
  "final r = (case r of Inl (e, s) \<Rightarrow> s | Inr (v, s) \<Rightarrow> s)"

subsection \<open>The binding slot (lines 22-30)\<close>

definition get_thread_local_memory_pool ::
    "tid \<Rightarrow> ('m, 'h) world \<Rightarrow> addr option \<times> ('m, 'h) world" where
  "get_thread_local_memory_pool t s = (sMemPool s t, emit (Slot_get t) s)"

definition set_thread_local_memory_pool ::
    "tid \<Rightarrow> addr option \<Rightarrow> ('m, 'h) world \<Rightarrow> ('m, 'h) world" where
  "set_thread_local_memory_pool t memPool s =
     emit (Slot_set t memPool) (s\<lparr>sMemPool := (sMemPool s)(t := memPool)\<rparr>)"

subsection \<open>Assertion macros\<close>

definition SkASSERT :: "bool \<Rightarrow> ('m, 'h) world \<Rightarrow> (unit, 'm, 'h) result" where
  \<comment> \<open>Modelled from the spec: the macro \<^verbatim>\<open>SkASSERT\<close> is defined outside this file; the
      spec makes a violated condition a fatal assertion. A build that compiles the
      checks out is not modelled.\<close>
  "SkASSERT cond s = (if cond then Inr ((), s) else Inl (Assertion_failed, s))"

definition SkDEBUGFAIL :: "string \<Rightarrow> ('m, 'h) world \<Rightarrow> ('m, 'h) world" where
  \<comment> \<open>Modelled from the spec: the macro \<^verbatim>\<open>SkDEBUGFAIL\<close> is defined outside this file;
      the spec has it surface a diagnostic, after which execution continues.\<close>
  "SkDEBUGFAIL message s = emit (Debug_fail message) s"

subsection \<open>Calls into the collaborators\<close>

text \<open>
  \<open>MemoryPool_Make\<close> is \<^verbatim>\<open>MemoryPool::Make\<close>: the new arena is placed at the address
  \<open>a\<close> the allocator chose. The other \<open>MemoryPool_\<close> functions are method calls
  \<^verbatim>\<open>p->method(...)\<close> through a pointer \<open>p\<close>.
\<close>

definition MemoryPool_Make :: "('m, 'h) collaborators \<Rightarrow> addr \<Rightarrow> nat \<Rightarrow> nat
    \<Rightarrow> ('m, 'h) world \<Rightarrow> addr option \<times> ('m, 'h) world" where
  "MemoryPool_Make E a preallocSize minAllocSize s =
     (Some a, emit (Arena_Make a preallocSize minAllocSize)
                (s\<lparr>arenas := (arenas s)(a \<mapsto> Make E preallocSize minAllocSize)\<rparr>))"

definition deref :: "addr option \<Rightarrow> ('m, 'h) world \<Rightarrow> (addr \<times> 'm) option" where
  "deref p s =
     (case p of None \<Rightarrow> None
      | Some a \<Rightarrow> (case arenas s a of None \<Rightarrow> None | Some m \<Rightarrow> Some (a, m)))"

definition MemoryPool_allocate :: "('m, 'h) collaborators \<Rightarrow> addr option \<Rightarrow> nat
    \<Rightarrow> ('m, 'h) world \<Rightarrow> (ptr, 'm, 'h) result" where
  "MemoryPool_allocate E p sz s =
     (case deref p s of None \<Rightarrow> Inl (Invalid_dereference, s)
      | Some (a, m) \<Rightarrow>
          Inr (fst (allocate E m sz),
               emit (Arena_allocate a sz)
                 (s\<lparr>arenas := (arenas s)(a \<mapsto> snd (allocate E m sz))\<rparr>)))"

definition MemoryPool_release :: "('m, 'h) collaborators \<Rightarrow> addr option \<Rightarrow> ptr
    \<Rightarrow> ('m, 'h) world \<Rightarrow> (unit, 'm, 'h) result" where
  "MemoryPool_release E p x s =
     (case deref p s of None \<Rightarrow> Inl (Invalid_dereference, s)
      | Some (a, m) \<Rightarrow>
          Inr ((), emit (Arena_release a x) (s\<lparr>arenas := (arenas s)(a \<mapsto> release E m x)\<rparr>)))"

definition MemoryPool_resetScratchSpace :: "('m, 'h) collaborators \<Rightarrow> addr option
    \<Rightarrow> ('m, 'h) world \<Rightarrow> (unit, 'm, 'h) result" where
  "MemoryPool_resetScratchSpace E p s =
     (case deref p s of None \<Rightarrow> Inl (Invalid_dereference, s)
      | Some (a, m) \<Rightarrow>
          Inr ((), emit (Arena_resetScratchSpace a)
                     (s\<lparr>arenas := (arenas s)(a \<mapsto> resetScratchSpace E m)\<rparr>)))"

definition MemoryPool_reportLeaks :: "('m, 'h) collaborators \<Rightarrow> addr option
    \<Rightarrow> ('m, 'h) world \<Rightarrow> (unit, 'm, 'h) result" where
  "MemoryPool_reportLeaks E p s =
     (case deref p s of None \<Rightarrow> Inl (Invalid_dereference, s)
      | Some (a, m) \<Rightarrow>
          Inr ((), emit (Arena_reportLeaks a)
                     (s\<lparr>arenas := (arenas s)(a \<mapsto> reportLeaks E m)\<rparr>)))"

definition MemoryPool_isEmpty :: "('m, 'h) collaborators \<Rightarrow> addr option
    \<Rightarrow> ('m, 'h) world \<Rightarrow> (bool, 'm, 'h) result" where
  "MemoryPool_isEmpty E p s =
     (case deref p s of None \<Rightarrow> Inl (Invalid_dereference, s)
      | Some (a, m) \<Rightarrow> Inr (isEmpty E m, emit (Arena_isEmpty a) s))"

definition global_operator_new :: "('m, 'h) collaborators \<Rightarrow> nat
    \<Rightarrow> ('m, 'h) world \<Rightarrow> (ptr, 'm, 'h) result" where
  "global_operator_new E sz s =
     Inr (fst (operator_new E (sysheap s) sz),
          emit (Operator_new sz) (s\<lparr>sysheap := snd (operator_new E (sysheap s) sz)\<rparr>))"

definition global_operator_delete :: "('m, 'h) collaborators \<Rightarrow> ptr
    \<Rightarrow> ('m, 'h) world \<Rightarrow> (unit, 'm, 'h) result" where
  "global_operator_delete E x s =
     Inr ((), emit (Operator_delete x) (s\<lparr>sysheap := operator_delete E (sysheap s) x\<rparr>))"

subsection \<open>The operations of Pool (lines 58-122)\<close>

text \<open>\<^verbatim>\<open>Pool::~Pool\<close>, the body of the destructor (lines 58-68).\<close>

definition Pool_destructor :: "('m, 'h) collaborators \<Rightarrow> tid \<Rightarrow> pool
    \<Rightarrow> ('m, 'h) world \<Rightarrow> (unit, 'm, 'h) result" where
  "Pool_destructor E t this s =
     (case get_thread_local_memory_pool t s of (p, s1) \<Rightarrow>
        let s2 = (if p = fMemPool this
                  then set_thread_local_memory_pool t None
                         (SkDEBUGFAIL
                            ''SkSL pool is being destroyed while it is still attached to the thread''
                            s1)
                  else s1)
        in seq (MemoryPool_reportLeaks E (fMemPool this) s2) (\<lambda>_ s3.
           seq (MemoryPool_isEmpty E (fMemPool this) s3) (\<lambda>empty s4.
           SkASSERT empty s4)))"

text \<open>\<^verbatim>\<open>Pool::Create\<close> (lines 70-75); \<open>a\<close> is the address of the arena that \<^verbatim>\<open>Make\<close> returns.\<close>

definition Create :: "('m, 'h) collaborators \<Rightarrow> addr
    \<Rightarrow> ('m, 'h) world \<Rightarrow> pool \<times> ('m, 'h) world" where
  "Create E a s =
     (case MemoryPool_Make E a 65536 32768 s of (p, s1) \<Rightarrow> (\<lparr>fMemPool = p\<rparr>, s1))"

text \<open>\<^verbatim>\<open>Pool::IsAttached\<close> (lines 77-79): the pointer converts to \<^verbatim>\<open>bool\<close>.\<close>

definition IsAttached :: "tid \<Rightarrow> ('m, 'h) world \<Rightarrow> bool \<times> ('m, 'h) world" where
  "IsAttached t s = (case get_thread_local_memory_pool t s of (p, s1) \<Rightarrow> (p \<noteq> None, s1))"

text \<open>\<^verbatim>\<open>Pool::attachToThread\<close> (lines 81-85).\<close>

definition attachToThread :: "('m, 'h) collaborators \<Rightarrow> tid \<Rightarrow> pool
    \<Rightarrow> ('m, 'h) world \<Rightarrow> (unit, 'm, 'h) result" where
  "attachToThread E t this s =
     (case get_thread_local_memory_pool t s of (p, s1) \<Rightarrow>
        seq (SkASSERT (p = None) s1) (\<lambda>_ s2.
        Inr ((), set_thread_local_memory_pool t (fMemPool this) s2)))"

text \<open>\<^verbatim>\<open>Pool::detachFromThread\<close> (lines 87-93).\<close>

definition detachFromThread :: "('m, 'h) collaborators \<Rightarrow> tid \<Rightarrow> pool
    \<Rightarrow> ('m, 'h) world \<Rightarrow> (unit, 'm, 'h) result" where
  "detachFromThread E t this s =
     (case get_thread_local_memory_pool t s of (memPool, s1) \<Rightarrow>
        seq (SkASSERT (memPool = fMemPool this) s1) (\<lambda>_ s2.
        seq (MemoryPool_resetScratchSpace E memPool s2) (\<lambda>_ s3.
        Inr ((), set_thread_local_memory_pool t None s3))))"

text \<open>\<^verbatim>\<open>Pool::AllocMemory\<close> (lines 95-108).\<close>

definition AllocMemory :: "('m, 'h) collaborators \<Rightarrow> tid \<Rightarrow> nat
    \<Rightarrow> ('m, 'h) world \<Rightarrow> (ptr, 'm, 'h) result" where
  "AllocMemory E t sz s =
     (case get_thread_local_memory_pool t s of (memPool, s1) \<Rightarrow>
        if memPool \<noteq> None then MemoryPool_allocate E memPool sz s1
        else global_operator_new E sz s1)"

text \<open>\<^verbatim>\<open>Pool::FreeMemory\<close> (lines 110-122).\<close>

definition FreeMemory :: "('m, 'h) collaborators \<Rightarrow> tid \<Rightarrow> ptr
    \<Rightarrow> ('m, 'h) world \<Rightarrow> (unit, 'm, 'h) result" where
  "FreeMemory E t x s =
     (case get_thread_local_memory_pool t s of (memPool, s1) \<Rightarrow>
        if memPool \<noteq> None then MemoryPool_release E memPool x s1
        else global_operator_delete E x s1)"

subsection \<open>Sequences of calls\<close>

text \<open>
  A client drives the component through its seven entry points. \<open>exec\<close> runs one call
  and keeps the state it ends in; \<open>reachable\<close> collects the states a client can bring
  about from the initial one. A call is admissible when \<^verbatim>\<open>Make\<close> returns an address
  that holds no arena yet, and when a member function is called on a \<^verbatim>\<open>Pool\<close> that
  \<^verbatim>\<open>Create\<close> returned.
\<close>

datatype call =
    Call_Create addr
  | Call_attachToThread tid pool
  | Call_detachFromThread tid pool
  | Call_destructor tid pool
  | Call_IsAttached tid
  | Call_AllocMemory tid nat
  | Call_FreeMemory tid ptr

definition outcome :: "('v, 'm, 'h) result \<Rightarrow> failure \<times> ('m, 'h) world + ('m, 'h) world" where
  "outcome r = (case r of Inl e \<Rightarrow> Inl e | Inr (v, s) \<Rightarrow> Inr s)"

fun exec :: "('m, 'h) collaborators \<Rightarrow> call \<Rightarrow> ('m, 'h) world
    \<Rightarrow> failure \<times> ('m, 'h) world + ('m, 'h) world" where
  "exec E (Call_Create a) s = Inr (snd (Create E a s))"
| "exec E (Call_attachToThread t h) s = outcome (attachToThread E t h s)"
| "exec E (Call_detachFromThread t h) s = outcome (detachFromThread E t h s)"
| "exec E (Call_destructor t h) s = outcome (Pool_destructor E t h s)"
| "exec E (Call_IsAttached t) s = Inr (snd (IsAttached t s))"
| "exec E (Call_AllocMemory t sz) s = outcome (AllocMemory E t sz s)"
| "exec E (Call_FreeMemory t x) s = outcome (FreeMemory E t x s)"

definition after :: "failure \<times> ('m, 'h) world + ('m, 'h) world \<Rightarrow> ('m, 'h) world" where
  "after r = (case r of Inl (e, s) \<Rightarrow> s | Inr s \<Rightarrow> s)"

fun admissible :: "call \<Rightarrow> ('m, 'h) world \<Rightarrow> bool" where
  "admissible (Call_Create a) s = (arenas s a = None)"
| "admissible (Call_attachToThread t h) s = (deref (fMemPool h) s \<noteq> None)"
| "admissible (Call_detachFromThread t h) s = (deref (fMemPool h) s \<noteq> None)"
| "admissible (Call_destructor t h) s = (deref (fMemPool h) s \<noteq> None)"
| "admissible (Call_IsAttached t) s = True"
| "admissible (Call_AllocMemory t sz) s = True"
| "admissible (Call_FreeMemory t x) s = True"

inductive reachable :: "('m, 'h) collaborators \<Rightarrow> ('m, 'h) world \<Rightarrow> bool"
  for E :: "('m, 'h) collaborators" where
  start: "reachable E (initial hp)"
| step: "reachable E s \<Longrightarrow> admissible c s \<Longrightarrow> exec E c s = Inr s' \<Longrightarrow> reachable E s'"

subsection \<open>A sample arena and system heap\<close>

text \<open>
  The theorems below hold for every choice of the collaborators. To run the model on
  concrete inputs, the collaborators are instantiated with a small arena and a small
  system heap.
\<close>

record arena =
  preallocSize :: nat
  minAllocSize :: nat
  cursor :: ptr
  outstanding :: "ptr list"
  scratch :: nat

record sys_heap =
  handed :: nat
  blocks :: "ptr list"

definition arena_collaborators :: "(arena, sys_heap) collaborators" where
  \<comment> \<open>Modelled from the spec: \<^verbatim>\<open>MemoryPool\<close> and the general-purpose allocator, whose code
      is outside this file. The arena is a bump allocator made with a preallocation size
      and a minimum growth size; it tracks its outstanding allocations, is empty when
      none is outstanding, and a scratch-space reset reclaims scratch space only.\<close>
  "arena_collaborators = \<lparr>
     Make = (\<lambda>pre mn. \<lparr>preallocSize = pre, minAllocSize = mn, cursor = 0,
                        outstanding = [], scratch = 0\<rparr>),
     allocate = (\<lambda>m n. (cursor m, m\<lparr>cursor := cursor m + n,
                                      outstanding := cursor m # outstanding m\<rparr>)),
     release = (\<lambda>m x. m\<lparr>outstanding := removeAll x (outstanding m)\<rparr>),
     resetScratchSpace = (\<lambda>m. m\<lparr>scratch := 0\<rparr>),
     reportLeaks = (\<lambda>m. m),
     isEmpty = (\<lambda>m. outstanding m = []),
     operator_new = (\<lambda>hp n. (Suc (handed hp),
                      \<lparr>handed = Suc (handed hp), blocks = Suc (handed hp) # blocks hp\<rparr>)),
     operator_delete = (\<lambda>hp x. hp\<lparr>blocks := removeAll x (blocks hp)\<rparr>)\<rparr>"

definition empty_heap :: sys_heap where
  "empty_heap = \<lparr>handed = 0, blocks = []\<rparr>"

text \<open>
  Sample states: \<open>demo_created\<close> is the initial state after \<^verbatim>\<open>Create()\<close> has placed its
  arena at address 64, \<open>demo_attached\<close> follows it by \<^verbatim>\<open>attachToThread()\<close> on thread 0,
  and \<open>demo_busy\<close> by \<^verbatim>\<open>AllocMemory(16)\<close> on thread 0.
\<close>

definition demo_pool :: pool where
  "demo_pool = fst (Create arena_collaborators 64 (initial empty_heap))"

definition demo_created :: "(arena, sys_heap) world" where
  "demo_created = snd (Create arena_collaborators 64 (initial empty_heap))"

definition demo_attached :: "(arena, sys_heap) world" where
  "demo_attached = final (attachToThread arena_collaborators 0 demo_pool demo_created)"

definition demo_busy :: "(arena, sys_heap) world" where
  "demo_busy = final (AllocMemory arena_collaborators 0 16 demo_attached)"

subsection \<open>Observations\<close>

text \<open>
  \<open>ending\<close> is how a call ends (the failure, or the value returned) and \<open>final\<close> the
  state it ends in. \<open>touches_arena\<close> marks the events that are calls into a
  \<^verbatim>\<open>MemoryPool\<close>, \<open>writes_slot\<close> the writes of a binding slot.
\<close>

definition ending :: "('v, 'm, 'h) result \<Rightarrow> failure + 'v" where
  "ending r = (case r of Inl (e, s) \<Rightarrow> Inl e | Inr (v, s) \<Rightarrow> Inr v)"

fun touches_arena :: "event \<Rightarrow> bool" where
  "touches_arena (Arena_Make a p q) = True"
| "touches_arena (Arena_allocate a n) = True"
| "touches_arena (Arena_release a x) = True"
| "touches_arena (Arena_resetScratchSpace a) = True"
| "touches_arena (Arena_reportLeaks a) = True"
| "touches_arena (Arena_isEmpty a) = True"
| "touches_arena e = False"

fun writes_slot :: "event \<Rightarrow> bool" where
  "writes_slot (Slot_set t p) = True"
| "writes_slot e = False"

section \<open>Properties\<close>

subsection \<open>Unfolding and the sample states\<close>

lemmas env_defs = get_thread_local_memory_pool_def set_thread_local_memory_pool_def
  SkASSERT_def SkDEBUGFAIL_def MemoryPool_Make_def MemoryPool_allocate_def
  MemoryPool_release_def MemoryPool_resetScratchSpace_def MemoryPool_reportLeaks_def
  MemoryPool_isEmpty_def global_operator_new_def global_operator_delete_def
  deref_def emit_def seq_def final_def Let_def

lemma ending_simps:
  "ending (Inl (e, s)) = Inl e" "ending (Inr (v, s)) = Inr v"
  by (simp_all add: ending_def)

lemma final_simps:
  "final (Inl (e, s)) = s" "final (Inr (v, s)) = s"
  by (simp_all add: final_def)

lemma after_outcome: "after (outcome r) = final r"
  by (simp add: after_def outcome_def final_def split: sum.splits prod.splits)

lemma demo_pool: "demo_pool = \<lparr>fMemPool = Some 64\<rparr>"
  by (simp add: demo_pool_def Create_def env_defs)

lemma demo_created:
  "sMemPool demo_created = (\<lambda>t. None)"
  "arenas demo_created 64 =
     Some \<lparr>preallocSize = 65536, minAllocSize = 32768, cursor = 0, outstanding = [],
           scratch = 0\<rparr>"
  "trace demo_created = [Arena_Make 64 65536 32768]"
  by (simp_all add: demo_created_def Create_def env_defs initial_def arena_collaborators_def)

lemma demo_attached:
  "sMemPool demo_attached 0 = Some 64"
  "sMemPool demo_attached (Suc 0) = None"
  "arenas demo_attached 64 =
     Some \<lparr>preallocSize = 65536, minAllocSize = 32768, cursor = 0, outstanding = [],
           scratch = 0\<rparr>"
  by (simp_all add: demo_attached_def attachToThread_def env_defs demo_created demo_pool)

lemma demo_busy:
  "sMemPool demo_busy 0 = Some 64"
  "sMemPool demo_busy (Suc 0) = None"
  "arenas demo_busy 64 =
     Some \<lparr>preallocSize = 65536, minAllocSize = 32768, cursor = 16, outstanding = [0],
           scratch = 0\<rparr>"
  by (simp_all add: demo_busy_def AllocMemory_def env_defs demo_attached
        arena_collaborators_def)

lemma reachable_demo_created: "reachable arena_collaborators demo_created"
proof -
  have "reachable arena_collaborators (initial empty_heap :: (arena, sys_heap) world)"
    by (rule reachable.start)
  moreover have "admissible (Call_Create 64) (initial empty_heap :: (arena, sys_heap) world)"
    by (simp add: initial_def)
  moreover have "exec arena_collaborators (Call_Create 64) (initial empty_heap) = Inr demo_created"
    by (simp add: demo_created_def)
  ultimately show ?thesis by (rule reachable.step)
qed

lemma attach_demo_created:
  "attachToThread arena_collaborators 0 demo_pool demo_created = Inr ((), demo_attached)"
  by (simp add: demo_attached_def attachToThread_def env_defs demo_created)

lemma reachable_demo_attached: "reachable arena_collaborators demo_attached"
proof -
  have "admissible (Call_attachToThread 0 demo_pool) demo_created"
    by (simp add: deref_def demo_pool demo_created)
  moreover have "exec arena_collaborators (Call_attachToThread 0 demo_pool) demo_created
      = Inr demo_attached"
    by (simp add: attach_demo_created outcome_def)
  ultimately show ?thesis using reachable_demo_created by (blast intro: reachable.step)
qed

subsection \<open>What each operation does to the binding slots\<close>

lemma slot_after_attachToThread:
  "sMemPool (final (attachToThread E t this s)) =
     (if sMemPool s t = None then (sMemPool s)(t := fMemPool this) else sMemPool s)"
  by (simp add: attachToThread_def env_defs)

lemma slot_after_detachFromThread:
  "sMemPool (final (detachFromThread E t this s)) =
     (if sMemPool s t = fMemPool this \<and> deref (fMemPool this) s \<noteq> None
      then (sMemPool s)(t := None) else sMemPool s)"
  by (simp add: detachFromThread_def env_defs split: option.splits)

lemma slot_after_Pool_destructor:
  "sMemPool (final (Pool_destructor E t this s)) =
     (if sMemPool s t = fMemPool this then (sMemPool s)(t := None) else sMemPool s)"
  by (simp add: Pool_destructor_def env_defs split: option.splits)

lemma slot_after_AllocMemory: "sMemPool (final (AllocMemory E t sz s)) = sMemPool s"
  by (simp add: AllocMemory_def env_defs split: option.splits)

lemma slot_after_FreeMemory: "sMemPool (final (FreeMemory E t x s)) = sMemPool s"
  by (simp add: FreeMemory_def env_defs split: option.splits)

lemma slot_after_IsAttached: "sMemPool (snd (IsAttached t s)) = sMemPool s"
  by (simp add: IsAttached_def env_defs)

lemma slot_after_Create: "sMemPool (snd (Create E a s)) = sMemPool s"
  by (simp add: Create_def env_defs)

lemmas slot_after = slot_after_attachToThread slot_after_detachFromThread
  slot_after_Pool_destructor slot_after_AllocMemory slot_after_FreeMemory
  slot_after_IsAttached slot_after_Create

subsection \<open>Allocation routing\<close>

text \<open>
  C1. \<^verbatim>\<open>AllocMemory(sz)\<close> reads the calling thread's slot first. With an arena bound
  (and alive) it returns what that arena's \<^verbatim>\<open>allocate(sz)\<close> returns and makes no other
  call. With no arena bound it returns what \<^verbatim>\<open>::operator new(sz)\<close> returns; the store
  of arenas is left as it was and no call into an arena is made.
\<close>

theorem AllocMemory_routes_by_binding:
  "(sMemPool s t = Some a \<and> arenas s a = Some m \<longrightarrow>
      AllocMemory E t sz s =
        Inr (fst (allocate E m sz),
             s\<lparr>arenas := (arenas s)(a \<mapsto> snd (allocate E m sz)),
               trace := trace s @ [Slot_get t, Arena_allocate a sz]\<rparr>))
   \<and> (sMemPool s t = None \<longrightarrow>
      AllocMemory E t sz s =
        Inr (fst (operator_new E (sysheap s) sz),
             s\<lparr>sysheap := snd (operator_new E (sysheap s) sz),
               trace := trace s @ [Slot_get t, Operator_new sz]\<rparr>)
      \<and> arenas (final (AllocMemory E t sz s)) = arenas s
      \<and> filter touches_arena (trace (final (AllocMemory E t sz s)))
          = filter touches_arena (trace s))"
  by (simp add: AllocMemory_def env_defs)

theorem AllocMemory_routes_by_binding_witness:
  "sMemPool demo_attached 0 = Some 64
   \<and> ending (AllocMemory arena_collaborators 0 16 demo_attached) = Inr 0
   \<and> map_option outstanding (arenas (final (AllocMemory arena_collaborators 0 16 demo_attached)) 64)
       = Some [0]
   \<and> sMemPool demo_attached 1 = None
   \<and> ending (AllocMemory arena_collaborators 1 16 demo_attached) = Inr 1
   \<and> arenas (final (AllocMemory arena_collaborators 1 16 demo_attached)) = arenas demo_attached"
proof -
  have bound: "sMemPool demo_attached 0 = Some 64 \<and> arenas demo_attached 64 =
      Some \<lparr>preallocSize = 65536, minAllocSize = 32768, cursor = 0, outstanding = [],
            scratch = 0\<rparr>"
    by (simp add: demo_attached)
  have unbound: "sMemPool demo_attached 1 = None"
    by (simp add: demo_attached)
  from AllocMemory_routes_by_binding [of demo_attached 0 64 _ arena_collaborators 16] bound
  have "AllocMemory arena_collaborators 0 16 demo_attached =
      Inr (0, demo_attached\<lparr>arenas := (arenas demo_attached)(64 \<mapsto>
                \<lparr>preallocSize = 65536, minAllocSize = 32768, cursor = 16, outstanding = [0],
                  scratch = 0\<rparr>),
              trace := trace demo_attached @ [Slot_get 0, Arena_allocate 64 16]\<rparr>)"
    by (simp add: arena_collaborators_def)
  moreover
  from AllocMemory_routes_by_binding [of demo_attached 1 _ _ arena_collaborators 16] unbound
  have "AllocMemory arena_collaborators 1 16 demo_attached =
      Inr (fst (operator_new arena_collaborators (sysheap demo_attached) 16),
           demo_attached\<lparr>sysheap := snd (operator_new arena_collaborators (sysheap demo_attached) 16),
              trace := trace demo_attached @ [Slot_get 1, Operator_new 16]\<rparr>)"
    by simp
  moreover have "sysheap demo_attached = empty_heap"
    by (simp add: demo_attached_def demo_created_def attachToThread_def Create_def env_defs
          initial_def)
  ultimately show ?thesis
    using bound unbound
    by (simp add: ending_simps final_simps arena_collaborators_def empty_heap_def)
qed

text \<open>
  C2. \<^verbatim>\<open>FreeMemory(x)\<close> routes the same way: with an arena bound (and alive) it calls that
  arena's \<^verbatim>\<open>release(x)\<close> and leaves the system heap alone; with no arena bound it calls
  \<^verbatim>\<open>::operator delete(x)\<close>, the store of arenas is left as it was and no call into an
  arena is made.
\<close>

theorem FreeMemory_routes_by_binding:
  "(sMemPool s t = Some a \<and> arenas s a = Some m \<longrightarrow>
      FreeMemory E t x s =
        Inr ((),
             s\<lparr>arenas := (arenas s)(a \<mapsto> release E m x),
               trace := trace s @ [Slot_get t, Arena_release a x]\<rparr>))
   \<and> (sMemPool s t = None \<longrightarrow>
      FreeMemory E t x s =
        Inr ((),
             s\<lparr>sysheap := operator_delete E (sysheap s) x,
               trace := trace s @ [Slot_get t, Operator_delete x]\<rparr>)
      \<and> arenas (final (FreeMemory E t x s)) = arenas s
      \<and> filter touches_arena (trace (final (FreeMemory E t x s)))
          = filter touches_arena (trace s))"
  by (simp add: FreeMemory_def env_defs)

theorem FreeMemory_routes_by_binding_witness:
  "sMemPool demo_busy 0 = Some 64
   \<and> ending (FreeMemory arena_collaborators 0 0 demo_busy) = Inr ()
   \<and> map_option outstanding (arenas (final (FreeMemory arena_collaborators 0 0 demo_busy)) 64)
       = Some []
   \<and> sysheap (final (FreeMemory arena_collaborators 0 0 demo_busy)) = sysheap demo_busy
   \<and> sMemPool demo_busy 1 = None
   \<and> ending (FreeMemory arena_collaborators 1 5 demo_busy) = Inr ()
   \<and> arenas (final (FreeMemory arena_collaborators 1 5 demo_busy)) = arenas demo_busy"
proof -
  have bound: "sMemPool demo_busy 0 = Some 64 \<and> arenas demo_busy 64 =
      Some \<lparr>preallocSize = 65536, minAllocSize = 32768, cursor = 16, outstanding = [0],
            scratch = 0\<rparr>"
    by (simp add: demo_busy)
  have unbound: "sMemPool demo_busy 1 = None"
    by (simp add: demo_busy)
  from FreeMemory_routes_by_binding [of demo_busy 0 64 _ arena_collaborators 0] bound
  have "FreeMemory arena_collaborators 0 0 demo_busy =
      Inr ((), demo_busy\<lparr>arenas := (arenas demo_busy)(64 \<mapsto>
                \<lparr>preallocSize = 65536, minAllocSize = 32768, cursor = 16, outstanding = [],
                  scratch = 0\<rparr>),
              trace := trace demo_busy @ [Slot_get 0, Arena_release 64 0]\<rparr>)"
    by (simp add: arena_collaborators_def)
  moreover
  from FreeMemory_routes_by_binding [of demo_busy 1 _ _ arena_collaborators 5] unbound
  have "FreeMemory arena_collaborators 1 5 demo_busy =
      Inr ((), demo_busy\<lparr>sysheap := operator_delete arena_collaborators (sysheap demo_busy) 5,
              trace := trace demo_busy @ [Slot_get 1, Operator_delete 5]\<rparr>)"
    by simp
  ultimately show ?thesis
    using bound unbound by (simp add: ending_simps final_simps)
qed

subsection \<open>Attaching and detaching\<close>

text \<open>
  C3. \<^verbatim>\<open>attachToThread()\<close> is valid only while the calling thread's slot is unbound.
  Then the assertion passes, the call returns, and the slot holds this handle's arena
  (nothing else changes but the trace). With any arena bound to the calling thread the
  call ends in an assertion failure and no slot is written.
\<close>

theorem attachToThread_requires_unbound:
  "(sMemPool s t = None \<longrightarrow>
      attachToThread E t this s =
        Inr ((), s\<lparr>sMemPool := (sMemPool s)(t := fMemPool this),
                   trace := trace s @ [Slot_get t, Slot_set t (fMemPool this)]\<rparr>)
      \<and> sMemPool (final (attachToThread E t this s)) t = fMemPool this)
   \<and> (sMemPool s t \<noteq> None \<longrightarrow>
      attachToThread E t this s =
        Inl (Assertion_failed, s\<lparr>trace := trace s @ [Slot_get t]\<rparr>))"
  by (simp add: attachToThread_def env_defs)

theorem attachToThread_requires_unbound_witness:
  "sMemPool demo_created 0 = None
   \<and> ending (attachToThread arena_collaborators 0 demo_pool demo_created) = Inr ()
   \<and> sMemPool (final (attachToThread arena_collaborators 0 demo_pool demo_created)) 0 = Some 64
   \<and> sMemPool demo_attached 0 \<noteq> None
   \<and> ending (attachToThread arena_collaborators 0 demo_pool demo_attached) = Inl Assertion_failed
   \<and> sMemPool (final (attachToThread arena_collaborators 0 demo_pool demo_attached))
       = sMemPool demo_attached"
proof -
  have unbound: "sMemPool demo_created 0 = None"
    by (simp add: demo_created)
  have bound: "sMemPool demo_attached 0 \<noteq> None"
    by (simp add: demo_attached)
  from attachToThread_requires_unbound [of demo_created 0 arena_collaborators demo_pool] unbound
  have "attachToThread arena_collaborators 0 demo_pool demo_created =
      Inr ((), demo_created\<lparr>sMemPool := (sMemPool demo_created)(0 := fMemPool demo_pool),
                 trace := trace demo_created @ [Slot_get 0, Slot_set 0 (fMemPool demo_pool)]\<rparr>)"
    by simp
  moreover
  from attachToThread_requires_unbound [of demo_attached 0 arena_collaborators demo_pool] bound
  have "attachToThread arena_collaborators 0 demo_pool demo_attached =
      Inl (Assertion_failed, demo_attached\<lparr>trace := trace demo_attached @ [Slot_get 0]\<rparr>)"
    by simp
  ultimately show ?thesis
    using unbound bound by (simp add: ending_simps final_simps demo_pool)
qed

text \<open>
  C4. \<^verbatim>\<open>detachFromThread()\<close> is valid only while the calling thread's slot equals this
  handle's arena; otherwise it ends in an assertion failure. When valid (the arena being
  alive) it makes exactly two effects after reading the slot, in this order: the call of
  \<^verbatim>\<open>resetScratchSpace()\<close> on the arena, then the write of \<^verbatim>\<open>nullptr\<close> to the slot.
  The arena is changed by that reset alone: whatever the reset leaves as it is (the live
  allocations, by the arena's contract), the detach leaves as it is in every arena.
\<close>

theorem detachFromThread_resets_then_clears:
  "(sMemPool s t \<noteq> fMemPool this \<longrightarrow>
      detachFromThread E t this s =
        Inl (Assertion_failed, s\<lparr>trace := trace s @ [Slot_get t]\<rparr>))
   \<and> (sMemPool s t = fMemPool this \<and> fMemPool this = Some a \<and> arenas s a = Some m \<longrightarrow>
      detachFromThread E t this s =
        Inr ((), s\<lparr>sMemPool := (sMemPool s)(t := None),
                   arenas := (arenas s)(a \<mapsto> resetScratchSpace E m),
                   trace := trace s @ [Slot_get t, Arena_resetScratchSpace a, Slot_set t None]\<rparr>)
      \<and> ((\<forall>m'. obs (resetScratchSpace E m') = obs m') \<longrightarrow>
           (\<forall>b. map_option obs (arenas (final (detachFromThread E t this s)) b)
                 = map_option obs (arenas s b))))"
  by (simp add: detachFromThread_def env_defs)

theorem detachFromThread_resets_then_clears_witness:
  "sMemPool demo_busy 1 \<noteq> fMemPool demo_pool
   \<and> ending (detachFromThread arena_collaborators 1 demo_pool demo_busy) = Inl Assertion_failed
   \<and> sMemPool demo_busy 0 = fMemPool demo_pool
   \<and> ending (detachFromThread arena_collaborators 0 demo_pool demo_busy) = Inr ()
   \<and> sMemPool (final (detachFromThread arena_collaborators 0 demo_pool demo_busy)) 0 = None
   \<and> trace (final (detachFromThread arena_collaborators 0 demo_pool demo_busy))
       = trace demo_busy @ [Slot_get 0, Arena_resetScratchSpace 64, Slot_set 0 None]
   \<and> map_option outstanding
        (arenas (final (detachFromThread arena_collaborators 0 demo_pool demo_busy)) 64)
       = Some [0]"
proof -
  have other: "sMemPool demo_busy 1 \<noteq> fMemPool demo_pool"
    by (simp add: demo_busy demo_pool)
  have mine: "sMemPool demo_busy 0 = fMemPool demo_pool \<and> fMemPool demo_pool = Some 64
      \<and> arenas demo_busy 64 =
          Some \<lparr>preallocSize = 65536, minAllocSize = 32768, cursor = 16, outstanding = [0],
                scratch = 0\<rparr>"
    by (simp add: demo_busy demo_pool)
  have keeps: "\<forall>m'. outstanding (resetScratchSpace arena_collaborators m') = outstanding m'"
    by (simp add: arena_collaborators_def)
  from detachFromThread_resets_then_clears
         [where s = demo_busy and t = 1 and this = demo_pool and E = arena_collaborators] other
  have "detachFromThread arena_collaborators 1 demo_pool demo_busy =
      Inl (Assertion_failed, demo_busy\<lparr>trace := trace demo_busy @ [Slot_get 1]\<rparr>)"
    by simp
  moreover
  from detachFromThread_resets_then_clears
         [where s = demo_busy and t = 0 and this = demo_pool and E = arena_collaborators
            and a = 64 and obs = outstanding
            and m = "\<lparr>preallocSize = 65536, minAllocSize = 32768, cursor = 16,
                      outstanding = [0], scratch = 0\<rparr>"] mine keeps
  have "detachFromThread arena_collaborators 0 demo_pool demo_busy =
      Inr ((), demo_busy\<lparr>sMemPool := (sMemPool demo_busy)(0 := None),
                 arenas := (arenas demo_busy)(64 \<mapsto> resetScratchSpace arena_collaborators
                   \<lparr>preallocSize = 65536, minAllocSize = 32768, cursor = 16,
                     outstanding = [0], scratch = 0\<rparr>),
                 trace := trace demo_busy @
                   [Slot_get 0, Arena_resetScratchSpace 64, Slot_set 0 None]\<rparr>)
     \<and> map_option outstanding
          (arenas (final (detachFromThread arena_collaborators 0 demo_pool demo_busy)) 64)
        = map_option outstanding (arenas demo_busy 64)"
    by blast
  ultimately show ?thesis
    using other mine by (simp add: ending_simps final_simps arena_collaborators_def)
qed

subsection \<open>Destruction\<close>

text \<open>
  C5. The destructor of a handle whose arena is alive. If the calling thread's slot
  still equals this handle's arena, it raises the diagnostic, writes \<^verbatim>\<open>nullptr\<close> to the
  slot and goes on. In both cases it then calls \<^verbatim>\<open>reportLeaks()\<close> and \<^verbatim>\<open>isEmpty()\<close>
  on the arena, in this order, and asserts the answer: the destructor returns when the
  arena is empty after the leak report and ends in an assertion failure when it is not.
  The leak report itself never ends the destructor.
\<close>

theorem destructor_recovers_and_checks_leaks:
  "fMemPool this = Some a \<and> arenas s a = Some m \<longrightarrow>
     (sMemPool s t = fMemPool this \<longrightarrow>
        final (Pool_destructor E t this s) =
           s\<lparr>sMemPool := (sMemPool s)(t := None),
             arenas := (arenas s)(a \<mapsto> reportLeaks E m),
             trace := trace s @
               [Slot_get t,
                Debug_fail ''SkSL pool is being destroyed while it is still attached to the thread'',
                Slot_set t None, Arena_reportLeaks a, Arena_isEmpty a]\<rparr>)
   \<and> (sMemPool s t \<noteq> fMemPool this \<longrightarrow>
        final (Pool_destructor E t this s) =
           s\<lparr>arenas := (arenas s)(a \<mapsto> reportLeaks E m),
             trace := trace s @ [Slot_get t, Arena_reportLeaks a, Arena_isEmpty a]\<rparr>)
   \<and> ending (Pool_destructor E t this s) =
        (if isEmpty E (reportLeaks E m) then Inr () else Inl Assertion_failed)"
  by (simp add: Pool_destructor_def env_defs ending_def)

theorem destructor_recovers_and_checks_leaks_witness:
  "sMemPool demo_attached 0 = fMemPool demo_pool
   \<and> ending (Pool_destructor arena_collaborators 0 demo_pool demo_attached) = Inr ()
   \<and> sMemPool (final (Pool_destructor arena_collaborators 0 demo_pool demo_attached)) 0 = None
   \<and> trace (final (Pool_destructor arena_collaborators 0 demo_pool demo_attached)) =
       trace demo_attached @
         [Slot_get 0,
          Debug_fail ''SkSL pool is being destroyed while it is still attached to the thread'',
          Slot_set 0 None, Arena_reportLeaks 64, Arena_isEmpty 64]
   \<and> sMemPool demo_created 0 \<noteq> fMemPool demo_pool
   \<and> ending (Pool_destructor arena_collaborators 0 demo_pool demo_created) = Inr ()
   \<and> trace (final (Pool_destructor arena_collaborators 0 demo_pool demo_created)) =
       trace demo_created @ [Slot_get 0, Arena_reportLeaks 64, Arena_isEmpty 64]
   \<and> ending (Pool_destructor arena_collaborators 0 demo_pool demo_busy) = Inl Assertion_failed
   \<and> sMemPool (final (Pool_destructor arena_collaborators 0 demo_pool demo_busy)) 0 = None"
proof -
  have attached: "fMemPool demo_pool = Some 64 \<and> arenas demo_attached 64 =
        Some \<lparr>preallocSize = 65536, minAllocSize = 32768, cursor = 0, outstanding = [],
              scratch = 0\<rparr>"
      "sMemPool demo_attached 0 = fMemPool demo_pool"
    by (simp_all add: demo_attached demo_pool)
  have created: "fMemPool demo_pool = Some 64 \<and> arenas demo_created 64 =
        Some \<lparr>preallocSize = 65536, minAllocSize = 32768, cursor = 0, outstanding = [],
              scratch = 0\<rparr>"
      "sMemPool demo_created 0 \<noteq> fMemPool demo_pool"
    by (simp_all add: demo_created demo_pool)
  have busy: "fMemPool demo_pool = Some 64 \<and> arenas demo_busy 64 =
        Some \<lparr>preallocSize = 65536, minAllocSize = 32768, cursor = 16, outstanding = [0],
              scratch = 0\<rparr>"
      "sMemPool demo_busy 0 = fMemPool demo_pool"
    by (simp_all add: demo_busy demo_pool)
  have 1: "final (Pool_destructor arena_collaborators 0 demo_pool demo_attached) =
      demo_attached\<lparr>sMemPool := (sMemPool demo_attached)(0 := None),
        arenas := (arenas demo_attached)(64 \<mapsto> reportLeaks arena_collaborators
          \<lparr>preallocSize = 65536, minAllocSize = 32768, cursor = 0, outstanding = [],
            scratch = 0\<rparr>),
        trace := trace demo_attached @
          [Slot_get 0,
           Debug_fail ''SkSL pool is being destroyed while it is still attached to the thread'',
           Slot_set 0 None, Arena_reportLeaks 64, Arena_isEmpty 64]\<rparr>
    \<and> ending (Pool_destructor arena_collaborators 0 demo_pool demo_attached) = Inr ()"
    using destructor_recovers_and_checks_leaks
            [where this = demo_pool and a = 64 and s = demo_attached and t = 0
               and E = arena_collaborators
               and m = "\<lparr>preallocSize = 65536, minAllocSize = 32768, cursor = 0,
                         outstanding = [], scratch = 0\<rparr>"]
          attached
    by (simp add: arena_collaborators_def)
  have 2: "final (Pool_destructor arena_collaborators 0 demo_pool demo_created) =
      demo_created\<lparr>
        arenas := (arenas demo_created)(64 \<mapsto> reportLeaks arena_collaborators
          \<lparr>preallocSize = 65536, minAllocSize = 32768, cursor = 0, outstanding = [],
            scratch = 0\<rparr>),
        trace := trace demo_created @ [Slot_get 0, Arena_reportLeaks 64, Arena_isEmpty 64]\<rparr>
    \<and> ending (Pool_destructor arena_collaborators 0 demo_pool demo_created) = Inr ()"
    using destructor_recovers_and_checks_leaks
            [where this = demo_pool and a = 64 and s = demo_created and t = 0
               and E = arena_collaborators
               and m = "\<lparr>preallocSize = 65536, minAllocSize = 32768, cursor = 0,
                         outstanding = [], scratch = 0\<rparr>"]
          created
    by (simp add: arena_collaborators_def)
  have 3: "final (Pool_destructor arena_collaborators 0 demo_pool demo_busy) =
      demo_busy\<lparr>sMemPool := (sMemPool demo_busy)(0 := None),
        arenas := (arenas demo_busy)(64 \<mapsto> reportLeaks arena_collaborators
          \<lparr>preallocSize = 65536, minAllocSize = 32768, cursor = 16, outstanding = [0],
            scratch = 0\<rparr>),
        trace := trace demo_busy @
          [Slot_get 0,
           Debug_fail ''SkSL pool is being destroyed while it is still attached to the thread'',
           Slot_set 0 None, Arena_reportLeaks 64, Arena_isEmpty 64]\<rparr>
    \<and> ending (Pool_destructor arena_collaborators 0 demo_pool demo_busy) = Inl Assertion_failed"
    using destructor_recovers_and_checks_leaks
            [where this = demo_pool and a = 64 and s = demo_busy and t = 0
               and E = arena_collaborators
               and m = "\<lparr>preallocSize = 65536, minAllocSize = 32768, cursor = 16,
                         outstanding = [0], scratch = 0\<rparr>"]
          busy
    by (simp add: arena_collaborators_def)
  show ?thesis
    using attached(2) created(2) by (simp add: 1 2 3)
qed

text \<open>
  C9. The destructor writes the calling thread's slot only when that slot equals this
  handle's own arena, and then it clears it. When the slot is unbound or holds another
  arena, every slot keeps its value and the destructor writes no slot at all. This holds
  however the destructor ends.
\<close>

theorem destructor_slot_frame:
  "(sMemPool s t = fMemPool this \<longrightarrow>
      sMemPool (final (Pool_destructor E t this s)) = (sMemPool s)(t := None))
   \<and> (sMemPool s t \<noteq> fMemPool this \<longrightarrow>
      sMemPool (final (Pool_destructor E t this s)) = sMemPool s
      \<and> filter writes_slot (trace (final (Pool_destructor E t this s)))
          = filter writes_slot (trace s))"
  by (simp add: Pool_destructor_def env_defs split: option.splits)

theorem destructor_slot_frame_witness:
  "sMemPool demo_attached 0 = fMemPool demo_pool
   \<and> sMemPool (final (Pool_destructor arena_collaborators 0 demo_pool demo_attached)) 0 = None
   \<and> sMemPool demo_attached 1 \<noteq> fMemPool demo_pool
   \<and> sMemPool (final (Pool_destructor arena_collaborators 1 demo_pool demo_attached)) 0
       = Some 64
   \<and> sMemPool (final (Pool_destructor arena_collaborators 0 \<lparr>fMemPool = Some 65\<rparr> demo_attached)) 0
       = Some 64"
proof -
  have mine: "sMemPool demo_attached 0 = fMemPool demo_pool"
    by (simp add: demo_attached demo_pool)
  have unbound: "sMemPool demo_attached 1 \<noteq> fMemPool demo_pool"
    by (simp add: demo_attached demo_pool)
  have other: "sMemPool demo_attached 0 \<noteq> fMemPool \<lparr>fMemPool = Some 65\<rparr>"
    by (simp add: demo_attached)
  show ?thesis
    using mine unbound other
      destructor_slot_frame [where s = demo_attached and t = 0 and this = demo_pool
        and E = arena_collaborators]
      destructor_slot_frame [where s = demo_attached and t = 1 and this = demo_pool
        and E = arena_collaborators]
      destructor_slot_frame [where s = demo_attached and t = 0
        and this = "\<lparr>fMemPool = Some 65\<rparr>" and E = arena_collaborators]
    by (simp add: demo_attached)
qed

subsection \<open>Operations that only read the slot\<close>

text \<open>
  C10. \<^verbatim>\<open>AllocMemory\<close>, \<^verbatim>\<open>FreeMemory\<close> and \<^verbatim>\<open>IsAttached\<close> read the calling thread's slot
  and never write one: after the call, however it ends, every slot holds the value it
  held before, and the trace has gained no slot write. \<^verbatim>\<open>IsAttached\<close> answers whether
  the calling thread's slot is bound.
\<close>

theorem readers_keep_slot:
  "sMemPool (final (AllocMemory E t sz s)) = sMemPool s
   \<and> filter writes_slot (trace (final (AllocMemory E t sz s))) = filter writes_slot (trace s)
   \<and> sMemPool (final (FreeMemory E t x s)) = sMemPool s
   \<and> filter writes_slot (trace (final (FreeMemory E t x s))) = filter writes_slot (trace s)
   \<and> sMemPool (snd (IsAttached t s)) = sMemPool s
   \<and> filter writes_slot (trace (snd (IsAttached t s))) = filter writes_slot (trace s)
   \<and> trace (snd (IsAttached t s)) = trace s @ [Slot_get t]
   \<and> fst (IsAttached t s) = (sMemPool s t \<noteq> None)"
  by (simp add: AllocMemory_def FreeMemory_def IsAttached_def env_defs split: option.splits)

theorem readers_keep_slot_witness:
  "sMemPool (final (AllocMemory arena_collaborators 0 16 demo_attached)) 0 = Some 64
   \<and> sMemPool (final (FreeMemory arena_collaborators 0 0 demo_busy)) 0 = Some 64
   \<and> sMemPool (snd (IsAttached 0 demo_attached)) 0 = Some 64
   \<and> fst (IsAttached 0 demo_attached)
   \<and> \<not> fst (IsAttached 1 demo_attached)"
  using readers_keep_slot [where E = arena_collaborators and t = 0 and sz = 16
          and s = demo_attached]
        readers_keep_slot [where E = arena_collaborators and t = 0 and x = 0 and s = demo_busy]
        readers_keep_slot [where t = 1 and s = demo_attached]
  by (simp add: demo_attached demo_busy)

subsection \<open>Creation\<close>

text \<open>
  C8. \<^verbatim>\<open>Create()\<close> returns a handle whose arena is the one just made by
  \<^verbatim>\<open>MemoryPool::Make(65536, 32768)\<close>: preallocation size 65536 and minimum allocation
  size 32768. It makes this one call and performs no binding: every slot keeps its
  value, so the new handle's arena is bound to no thread, provided no slot held its
  address before.
\<close>

theorem Create_fixed_configuration:
  "Create E a s =
     (\<lparr>fMemPool = Some a\<rparr>,
      s\<lparr>arenas := (arenas s)(a \<mapsto> Make E 65536 32768),
        trace := trace s @ [Arena_Make a 65536 32768]\<rparr>)
   \<and> sMemPool (snd (Create E a s)) = sMemPool s
   \<and> ((\<forall>t. sMemPool s t \<noteq> Some a) \<longrightarrow>
        (\<forall>t. sMemPool (snd (Create E a s)) t \<noteq> fMemPool (fst (Create E a s))))"
  by (simp add: Create_def env_defs)

theorem Create_fixed_configuration_witness:
  "fMemPool (fst (Create arena_collaborators 64 (initial empty_heap))) = Some 64
   \<and> map_option preallocSize
        (arenas (snd (Create arena_collaborators 64 (initial empty_heap))) 64) = Some 65536
   \<and> map_option minAllocSize
        (arenas (snd (Create arena_collaborators 64 (initial empty_heap))) 64) = Some 32768
   \<and> trace (snd (Create arena_collaborators 64 (initial empty_heap)))
       = [Arena_Make 64 65536 32768]
   \<and> sMemPool (snd (Create arena_collaborators 64 (initial empty_heap))) 0
       \<noteq> fMemPool (fst (Create arena_collaborators 64 (initial empty_heap)))
   \<and> sMemPool (snd (Create arena_collaborators 64 (initial empty_heap))) 1
       \<noteq> fMemPool (fst (Create arena_collaborators 64 (initial empty_heap)))"
proof -
  have unbound: "\<forall>t. sMemPool (initial empty_heap :: (arena, sys_heap) world) t \<noteq> Some 64"
    by (simp add: initial_def)
  have "trace (initial empty_heap :: (arena, sys_heap) world) = []"
    by (simp add: initial_def)
  then show ?thesis
    using unbound
      Create_fixed_configuration
        [where E = arena_collaborators and a = 64
           and s = "initial empty_heap :: (arena, sys_heap) world"]
    by (simp add: arena_collaborators_def)
qed

subsection \<open>Exclusivity of an attachment\<close>

text \<open>
  C6 claims that attaching a handle whose arena is bound to some thread fails from any
  thread. The assertion of \<^verbatim>\<open>attachToThread()\<close> reads the calling thread's slot and
  nothing else. After \<^verbatim>\<open>Create()\<close> and \<^verbatim>\<open>attachToThread()\<close> on thread 0, the same
  handle attaches on thread 1 without an assertion failure, and its arena is then bound
  to both threads.
\<close>

theorem attach_from_second_thread_counterexample:
  "reachable arena_collaborators demo_attached
   \<and> fMemPool demo_pool = Some 64
   \<and> sMemPool demo_attached 0 = fMemPool demo_pool
   \<and> admissible (Call_attachToThread 1 demo_pool) demo_attached
   \<and> ending (attachToThread arena_collaborators 1 demo_pool demo_attached) = Inr ()
   \<and> sMemPool (final (attachToThread arena_collaborators 1 demo_pool demo_attached)) 0 = Some 64
   \<and> sMemPool (final (attachToThread arena_collaborators 1 demo_pool demo_attached)) 1 = Some 64"
proof -
  have "attachToThread arena_collaborators 1 demo_pool demo_attached =
      Inr ((), demo_attached\<lparr>sMemPool := (sMemPool demo_attached)(1 := fMemPool demo_pool),
                 trace := trace demo_attached @ [Slot_get 1, Slot_set 1 (fMemPool demo_pool)]\<rparr>)"
    by (simp add: attachToThread_def env_defs demo_attached)
  then show ?thesis
    by (simp add: reachable_demo_attached demo_pool demo_attached deref_def ending_simps
          final_simps)
qed

text \<open>
  C6, amended. \<^verbatim>\<open>attachToThread()\<close> ends in an assertion failure exactly when the
  calling thread's own slot is bound, to this handle's arena or to any other. So a handle
  whose arena is bound to the calling thread cannot be attached again from that thread.
\<close>

theorem attachToThread_checks_calling_thread_only:
  "(sMemPool s t = fMemPool this \<and> fMemPool this \<noteq> None \<longrightarrow>
      ending (attachToThread E t this s) = Inl Assertion_failed)
   \<and> (ending (attachToThread E t this s) = Inl Assertion_failed \<longleftrightarrow> sMemPool s t \<noteq> None)"
  by (simp add: attachToThread_def env_defs ending_def)

theorem attachToThread_checks_calling_thread_only_witness:
  "sMemPool demo_attached 0 = fMemPool demo_pool
   \<and> fMemPool demo_pool \<noteq> None
   \<and> ending (attachToThread arena_collaborators 0 demo_pool demo_attached) = Inl Assertion_failed
   \<and> sMemPool demo_attached 1 = None
   \<and> ending (attachToThread arena_collaborators 1 demo_pool demo_attached) \<noteq> Inl Assertion_failed"
proof -
  have bound: "sMemPool demo_attached 0 = fMemPool demo_pool \<and> fMemPool demo_pool \<noteq> None"
    by (simp add: demo_attached demo_pool)
  have unbound: "sMemPool demo_attached 1 = None"
    by (simp add: demo_attached)
  show ?thesis
    using bound unbound
      attachToThread_checks_calling_thread_only
        [where s = demo_attached and t = 0 and this = demo_pool and E = arena_collaborators]
      attachToThread_checks_calling_thread_only
        [where s = demo_attached and t = 1 and this = demo_pool and E = arena_collaborators]
    by simp
qed

subsection \<open>Who writes the binding slot\<close>

text \<open>
  C7 claims that only attach and detach change a slot. The destructor of a handle that
  is still bound to the calling thread changes it as well (lines 59-62): after
  \<^verbatim>\<open>Create()\<close> and \<^verbatim>\<open>attachToThread()\<close> on thread 0, destroying the handle on thread 0
  returns and leaves the slot of thread 0 unbound.
\<close>

theorem destructor_writes_slot_counterexample:
  "reachable arena_collaborators demo_attached
   \<and> admissible (Call_destructor 0 demo_pool) demo_attached
   \<and> sMemPool demo_attached 0 = Some 64
   \<and> ending (Pool_destructor arena_collaborators 0 demo_pool demo_attached) = Inr ()
   \<and> sMemPool (final (Pool_destructor arena_collaborators 0 demo_pool demo_attached)) 0 = None"
proof -
  have "ending (Pool_destructor arena_collaborators 0 demo_pool demo_attached) = Inr ()"
    by (simp add: Pool_destructor_def env_defs ending_def demo_attached demo_pool
          arena_collaborators_def)
  then show ?thesis
    by (simp add: reachable_demo_attached demo_pool demo_attached deref_def
          slot_after_Pool_destructor)
qed

text \<open>
  C7, amended. Every slot starts unbound. A call changes the slots in one of three ways
  only, each on the slot of the calling thread: \<^verbatim>\<open>attachToThread()\<close> on an unbound slot
  sets it to the handle's arena, \<^verbatim>\<open>detachFromThread()\<close> on a slot that holds the
  handle's arena clears it, and the destructor of a handle whose arena the slot holds
  clears it. Every other call, and these three in every other situation, leave all
  slots as they were.
\<close>

theorem slot_written_by_attach_detach_destructor_only:
  "sMemPool (initial hp :: ('m, 'h) world) t = None
   \<and> (sMemPool (after (exec (E :: ('m, 'h) collaborators) c s)) = sMemPool s
      \<or> (\<exists>t this. c = Call_attachToThread t this \<and> sMemPool s t = None
            \<and> sMemPool (after (exec E c s)) = (sMemPool s)(t := fMemPool this))
      \<or> (\<exists>t this. c = Call_detachFromThread t this \<and> sMemPool s t = fMemPool this
            \<and> sMemPool (after (exec E c s)) = (sMemPool s)(t := None))
      \<or> (\<exists>t this. c = Call_destructor t this \<and> sMemPool s t = fMemPool this
            \<and> sMemPool (after (exec E c s)) = (sMemPool s)(t := None)))"
proof (cases c)
  case (Call_Create a)
  then show ?thesis by (simp add: initial_def after_def slot_after)
next
  case (Call_attachToThread t' this)
  then show ?thesis by (simp add: initial_def after_outcome slot_after)
next
  case (Call_detachFromThread t' this)
  then show ?thesis by (simp add: initial_def after_outcome slot_after)
next
  case (Call_destructor t' this)
  then show ?thesis by (simp add: initial_def after_outcome slot_after)
next
  case (Call_IsAttached t')
  then show ?thesis by (simp add: initial_def after_def slot_after)
next
  case (Call_AllocMemory t' sz)
  then show ?thesis by (simp add: initial_def after_outcome slot_after)
next
  case (Call_FreeMemory t' x)
  then show ?thesis by (simp add: initial_def after_outcome slot_after)
qed

theorem slot_written_by_attach_detach_destructor_only_witness:
  "sMemPool (initial empty_heap :: (arena, sys_heap) world) 0 = None
   \<and> sMemPool (after (exec arena_collaborators (Call_AllocMemory 0 16) demo_attached))
       = sMemPool demo_attached
   \<and> sMemPool (after (exec arena_collaborators (Call_Create 65) demo_attached))
       = sMemPool demo_attached"
  using slot_written_by_attach_detach_destructor_only
          [where hp = empty_heap and t = 0 and E = arena_collaborators
             and c = "Call_AllocMemory 0 16" and s = demo_attached]
        slot_written_by_attach_detach_destructor_only
          [where hp = empty_heap and t = 0 and E = arena_collaborators
             and c = "Call_Create 65" and s = demo_attached]
  by simp

end
